theory Spec2Isabelle
  imports Complex_Main
begin

section \<open>Point-cloud datasets of ViT-Lens: \<^verbatim>\<open>open_clip/modal_3d/datasets.py\<close>\<close>

text \<open>
  The module is numeric array code over numpy and torch. The embedding reads
  \<^item> an \<open>N \<times> C\<close> array as a list of \<open>N\<close> rows, each a list of \<open>C\<close> numbers, and a
    \<open>B \<times> N \<times> C\<close> batch as a list of \<open>B\<close> such clouds;
  \<^item> a floating-point number as a \<^typ>\<open>real\<close>: arithmetic is exact, so the rounding of each
    operation, overflow to infinity and \<^verbatim>\<open>nan\<close> are outside the model; the properties
    proved do not rest on exact arithmetic unless they say so;
  \<^item> every value drawn from \<^verbatim>\<open>np.random\<close> as an argument of the function that draws it,
    indexed the way the source indexes the drawn array;
  \<^item> every exception of the source as a value \<open>Inl e\<close> of a sum type.
\<close>

datatype py_error =
  ValueError | IndexError | TypeError | RuntimeError | AssertionError | NaN_result

text \<open>
  \<^const>\<open>NaN_result\<close> is not an exception. Where numpy divides zero by zero it returns an
  array of \<^verbatim>\<open>nan\<close> (with a warning) and goes on; \<^typ>\<open>real\<close> has no such value, so the model
  stops there and says so.
\<close>

type_synonym array1 = "real list"
type_synonym array2 = "real list list"
type_synonym array3 = "real list list list"

subsection \<open>numpy on lists\<close>

text \<open>The number of columns of an \<open>N \<times> C\<close> array with \<open>N \<ge> 1\<close>.\<close>

definition ncols :: "'a list list \<Rightarrow> nat" where
  "ncols a = (case a of [] \<Rightarrow> 0 | row # _ \<Rightarrow> length row)"

text \<open>\<^verbatim>\<open>np.mean(pc, axis=0)\<close>: the mean of every column.\<close>

definition np_mean_axis0 :: "array2 \<Rightarrow> array1" where
  "np_mean_axis0 pc =
     map (\<lambda>j. sum_list (map (\<lambda>row. row ! j) pc) / real (length pc)) [0..<ncols pc]"

text \<open>\<^verbatim>\<open>np.sqrt(np.sum(pc**2, axis=1))\<close>: the Euclidean norm of every row.\<close>

definition row_norms :: "array2 \<Rightarrow> array1" where
  "row_norms pc = map (\<lambda>row. sqrt (sum_list (map (\<lambda>x. x\<^sup>2) row))) pc"

text \<open>\<^verbatim>\<open>np.max\<close> of a one-dimensional array; on an empty array it raises \<^verbatim>\<open>ValueError\<close>.\<close>

fun np_max :: "array1 \<Rightarrow> py_error + real" where
  "np_max [] = Inl ValueError"
| "np_max (x # xs) = Inr (fold max xs x)"

text \<open>\<^verbatim>\<open>np.argmax\<close> of a non-empty one-dimensional array: the first index of the maximum.\<close>

fun argmax_from :: "nat \<Rightarrow> real \<Rightarrow> nat \<Rightarrow> array1 \<Rightarrow> nat" where
  "argmax_from best v i [] = best"
| "argmax_from best v i (x # xs) =
     (if v < x then argmax_from i x (i + 1) xs else argmax_from best v (i + 1) xs)"

fun np_argmax :: "array1 \<Rightarrow> py_error + nat" where
  "np_argmax [] = Inl ValueError"
| "np_argmax (x # xs) = Inr (argmax_from 0 x 1 xs)"

text \<open>
  \<^verbatim>\<open>np.dot(a, m)\<close> of an \<open>N \<times> K\<close> array with a \<open>K \<times> J\<close> matrix: entry \<open>(i, j)\<close> is the sum over
  \<open>k\<close> of \<open>a[i][k] * m[k][j]\<close>.
\<close>

definition np_dot :: "array2 \<Rightarrow> array2 \<Rightarrow> array2" where
  "np_dot a m =
     map (\<lambda>row. map (\<lambda>j. sum_list (map (\<lambda>k. row ! k * m ! k ! j) [0..<length m]))
                    [0..<ncols m]) a"

text \<open>\<^verbatim>\<open>np.clip(x, lo, hi)\<close> is \<^verbatim>\<open>minimum(maximum(x, lo), hi)\<close>.\<close>

definition np_clip :: "real \<Rightarrow> real \<Rightarrow> real \<Rightarrow> real" where
  "np_clip x lo hi = min (max x lo) hi"

text \<open>
  What an array of \<^verbatim>\<open>dtype=np.float32\<close> holds after a value is stored in it: the nearest
  number with a significand of 24 bits and an exponent of at least \<open>-149\<close>, a tie going to
  the even significand. (A value beyond the largest \<^verbatim>\<open>float32\<close> is stored as an infinity,
  which \<^typ>\<open>real\<close> does not have.) The numbers a \<^verbatim>\<open>float32\<close> array can hold are those the
  store leaves as they are, within the range of the format.
\<close>

definition round_half_even :: "real \<Rightarrow> int" where
  "round_half_even x =
     (let n = \<lfloor>x\<rfloor>; d = x - of_int n
      in if d < 1 / 2 then n else if 1 / 2 < d then n + 1 else if even n then n else n + 1)"

definition np_float32 :: "real \<Rightarrow> real" where
  "np_float32 x =
     (if x = 0 then 0
      else let e = max (\<lfloor>log 2 \<bar>x\<bar>\<rfloor> - 23) (- 149)
           in of_int (round_half_even (x / 2 powr of_int e)) * 2 powr of_int e)"

definition is_float32 :: "real \<Rightarrow> bool" where
  "is_float32 x \<longleftrightarrow> np_float32 x = x \<and> \<bar>x\<bar> < 2 ^ 128"

subsection \<open>Normalisation\<close>

text \<open>
  \<^verbatim>\<open>
  def pc_normalize(pc):
      centroid = np.mean(pc, axis=0)
      pc = pc - centroid
      m = np.max(np.sqrt(np.sum(pc**2, axis=1)))
      pc = pc / m
      return pc
  \<close>
  \<^verbatim>\<open>pc - centroid\<close> subtracts the centroid from every row. With no rows \<^verbatim>\<open>np.max\<close> raises.
  With \<open>m = 0\<close> every entry of the centred array is 0 and the quotient is \<^verbatim>\<open>nan\<close> wherever
  there is an entry.
\<close>

definition pc_normalize :: "array2 \<Rightarrow> py_error + array2" where
  "pc_normalize pc =
     (let centroid = np_mean_axis0 pc;
          pc1 = map (\<lambda>row. map2 (-) row centroid) pc
      in case np_max (row_norms pc1) of
           Inl e \<Rightarrow> Inl e
         | Inr m \<Rightarrow>
             if m = 0 \<and> list_ex (\<lambda>row. row \<noteq> []) pc1 then Inl NaN_result
             else Inr (map (map (\<lambda>x. x / m)) pc1))"

text \<open>\<^verbatim>\<open>Objverse.pc_norm\<close> and \<^verbatim>\<open>ShapeNet.pc_norm\<close>: two methods with the same five lines.\<close>

definition Objverse_pc_norm :: "array2 \<Rightarrow> py_error + array2" where
  "Objverse_pc_norm pc =
     (let centroid = np_mean_axis0 pc;
          pc1 = map (\<lambda>row. map2 (-) row centroid) pc
      in case np_max (row_norms pc1) of
           Inl e \<Rightarrow> Inl e
         | Inr m \<Rightarrow>
             if m = 0 \<and> list_ex (\<lambda>row. row \<noteq> []) pc1 then Inl NaN_result
             else Inr (map (map (\<lambda>x. x / m)) pc1))"

definition ShapeNet_pc_norm :: "array2 \<Rightarrow> py_error + array2" where
  "ShapeNet_pc_norm pc =
     (let centroid = np_mean_axis0 pc;
          pc1 = map (\<lambda>row. map2 (-) row centroid) pc
      in case np_max (row_norms pc1) of
           Inl e \<Rightarrow> Inl e
         | Inr m \<Rightarrow>
             if m = 0 \<and> list_ex (\<lambda>row. row \<noteq> []) pc1 then Inl NaN_result
             else Inr (map (map (\<lambda>x. x / m)) pc1))"

subsection \<open>Objverse: the bucket lookup\<close>

text \<open>
  \<^verbatim>\<open>self.cumulative_bucket_scale = np.cumsum(list(self.data_manual.values()))\<close>: the running
  totals of the buckets' entry counts, in bucket order. The counts are those of the LMDB
  shards, natural numbers far below \<open>2^63\<close>, so the \<^verbatim>\<open>int64\<close> sums are the integers' sums.
\<close>

fun cumsum_from :: "int \<Rightarrow> nat list \<Rightarrow> int list" where
  "cumsum_from acc [] = []"
| "cumsum_from acc (n # ns) = (acc + int n) # cumsum_from (acc + int n) ns"

definition cumsum :: "nat list \<Rightarrow> int list" where
  "cumsum ns = cumsum_from 0 ns"

text \<open>
  \<^verbatim>\<open>
  def find_bucket(self, id, bucket_scale):
      bid = 0
      for scale in bucket_scale:
          if id >= scale:
              bid += 1
          else:
              return bid
  \<close>
  The loop carries \<open>bid\<close>; falling off the end returns Python's \<^verbatim>\<open>None\<close>.
\<close>

fun find_bucket_loop :: "int \<Rightarrow> int list \<Rightarrow> nat \<Rightarrow> nat option" where
  "find_bucket_loop ident [] bid = None"
| "find_bucket_loop ident (scale # rest) bid =
     (if ident \<ge> scale then find_bucket_loop ident rest (bid + 1) else Some bid)"

definition find_bucket :: "int \<Rightarrow> int list \<Rightarrow> nat option" where
  "find_bucket ident bucket_scale = find_bucket_loop ident bucket_scale 0"

text \<open>
  The first lines of \<^verbatim>\<open>Objverse.__getitem__\<close>: the bucket, the bucket's first global index
  and the key \<^verbatim>\<open>index - initial_idx\<close> looked up in that bucket. With \<^verbatim>\<open>bucket_idx = None\<close>
  the comparison \<^verbatim>\<open>None == 0\<close> is false and \<^verbatim>\<open>None - 1\<close> raises \<^verbatim>\<open>TypeError\<close>.
\<close>

definition Objverse_locate :: "int \<Rightarrow> int list \<Rightarrow> py_error + (nat \<times> int)" where
  "Objverse_locate index cumulative_bucket_scale =
     (case find_bucket index cumulative_bucket_scale of
        None \<Rightarrow> Inl TypeError
      | Some bucket_idx \<Rightarrow>
          (let initial_idx =
                 (if bucket_idx = 0 then 0 else cumulative_bucket_scale ! (bucket_idx - 1))
           in Inr (bucket_idx, index - initial_idx)))"

subsection \<open>Array shapes\<close>

text \<open>An array of shape \<open>B \<times> N \<times> C\<close>: \<open>B\<close> clouds of \<open>N\<close> points of \<open>C\<close> coordinates.\<close>

definition has_shape3 :: "nat \<Rightarrow> nat \<Rightarrow> nat \<Rightarrow> 'a list list list \<Rightarrow> bool" where
  "has_shape3 B N C a \<longleftrightarrow>
     length a = B \<and>
     list_all (\<lambda>cloud. length cloud = N \<and> list_all (\<lambda>row. length row = C) cloud) a"

subsection \<open>Augmentation\<close>

text \<open>
  The augmentation functions are written for a batch of shape \<open>B \<times> N \<times> 3\<close> (their
  docstrings), and the definitions below are their behaviour on such a batch. Three of them
  (\<^verbatim>\<open>random_point_dropout\<close>, \<^verbatim>\<open>random_scale_point_cloud\<close>, \<^verbatim>\<open>shift_point_cloud\<close>) write into
  their argument and return it; the model returns the new value. Each loop over the batch
  index touches only its own cloud, so it is a map over the batch indices.

  \<^verbatim>\<open>np.random.random()\<close> and \<^verbatim>\<open>np.random.uniform()\<close> draw from \<open>[0, 1)\<close>,
  \<^verbatim>\<open>np.random.uniform(low, high)\<close> is \<open>low + (high - low) * u\<close> for such a draw \<open>u\<close>, and
  \<^verbatim>\<open>np.random.randn\<close> draws any real. The draws are arguments, indexed like the drawn arrays.
\<close>

text \<open>
  \<^verbatim>\<open>
  def random_point_dropout(batch_pc, max_dropout_ratio=0.875):
      for b in range(batch_pc.shape[0]):
          dropout_ratio = np.random.random() * max_dropout_ratio
          drop_idx = np.where(np.random.random((batch_pc.shape[1])) <= dropout_ratio)[0]
          if len(drop_idx) > 0:
              batch_pc[b, drop_idx, :] = batch_pc[b, 0, :]
      return batch_pc
  \<close>
  The points are copied whole, so their type is left open.
\<close>

definition random_point_dropout ::
  "(nat \<Rightarrow> real) \<Rightarrow> (nat \<Rightarrow> nat \<Rightarrow> real) \<Rightarrow> real \<Rightarrow> 'a list list \<Rightarrow> 'a list list" where
  "random_point_dropout ratio_draw mask_draw max_dropout_ratio batch_pc =
     map (\<lambda>b.
            let dropout_ratio = ratio_draw b * max_dropout_ratio;
                drop_idx = filter (\<lambda>i. mask_draw b i \<le> dropout_ratio) [0..<ncols batch_pc];
                cloud = batch_pc ! b
            in if length drop_idx > 0
               then map (\<lambda>i. if i \<in> set drop_idx then cloud ! 0 else cloud ! i)
                        [0..<length cloud]
               else cloud)
         [0..<length batch_pc]"

text \<open>
  \<^verbatim>\<open>
  def random_scale_point_cloud(batch_data, scale_low=0.8, scale_high=1.25):
      B, N, C = batch_data.shape
      scales = np.random.uniform(scale_low, scale_high, B)
      for batch_index in range(B):
          batch_data[batch_index, :, :] *= scales[batch_index]
      return batch_data
  \<close>
\<close>

definition random_scale_point_cloud ::
  "(nat \<Rightarrow> real) \<Rightarrow> real \<Rightarrow> real \<Rightarrow> array3 \<Rightarrow> array3" where
  "random_scale_point_cloud u scale_low scale_high batch_data =
     (let scales = (\<lambda>b. scale_low + (scale_high - scale_low) * u b)
      in map (\<lambda>batch_index. map (map (\<lambda>x. x * scales batch_index)) (batch_data ! batch_index))
             [0..<length batch_data])"

text \<open>
  \<^verbatim>\<open>
  def shift_point_cloud(batch_data, shift_range=0.1):
      B, N, C = batch_data.shape
      shifts = np.random.uniform(-shift_range, shift_range, (B, 3))
      for batch_index in range(B):
          batch_data[batch_index, :, :] += shifts[batch_index, :]
      return batch_data
  \<close>
  The row \<^verbatim>\<open>shifts[batch_index, :]\<close> of three numbers is added to every point of the cloud.
\<close>

definition shift_point_cloud ::
  "(nat \<Rightarrow> nat \<Rightarrow> real) \<Rightarrow> real \<Rightarrow> array3 \<Rightarrow> array3" where
  "shift_point_cloud u shift_range batch_data =
     (let shifts = (\<lambda>b. map (\<lambda>j. - shift_range + (shift_range - (- shift_range)) * u b j)
                            [0..<3])
      in map (\<lambda>batch_index. map (\<lambda>row. map2 (+) row (shifts batch_index))
                                  (batch_data ! batch_index))
             [0..<length batch_data])"

text \<open>
  \<^verbatim>\<open>
  def jitter_point_cloud(batch_data, sigma=0.01, clip=0.05):
      B, N, C = batch_data.shape
      assert clip > 0
      jittered_data = np.clip(sigma * np.random.randn(B, N, C), -1 * clip, clip)
      jittered_data += batch_data
      return jittered_data
  \<close>
\<close>

definition jitter_point_cloud ::
  "(nat \<Rightarrow> nat \<Rightarrow> nat \<Rightarrow> real) \<Rightarrow> real \<Rightarrow> real \<Rightarrow> array3 \<Rightarrow> py_error + array3" where
  "jitter_point_cloud z sigma clip batch_data =
     (if \<not> clip > 0 then Inl AssertionError
      else Inr (map (\<lambda>b. map (\<lambda>n. map (\<lambda>c. np_clip (sigma * z b n c) (- 1 * clip) clip
                                           + batch_data ! b ! n ! c)
                                     [0..<length (batch_data ! b ! n)])
                             [0..<length (batch_data ! b)])
                    [0..<length batch_data]))"

text \<open>
  \<^verbatim>\<open>
  def rotate_point_cloud(batch_data):
      rotated_data = np.zeros(batch_data.shape, dtype=np.float32)
      for k in range(batch_data.shape[0]):
          rotation_angle = np.random.uniform() * 2 * np.pi
          cosval = np.cos(rotation_angle)
          sinval = np.sin(rotation_angle)
          rotation_matrix = np.array(
              [[cosval, 0, sinval], [0, 1, 0], [-sinval, 0, cosval]]
          )
          shape_pc = batch_data[k, ...]
          rotated_data[k, ...] = np.dot(shape_pc.reshape((-1, 3)), rotation_matrix)
      return rotated_data
  \<close>
  On an \<open>N \<times> 3\<close> cloud \<^verbatim>\<open>reshape((-1, 3))\<close> changes nothing. \<^verbatim>\<open>rotated_data\<close> is an array of
  \<^verbatim>\<open>float32\<close>, whatever the input is: the products are stored through \<^const>\<open>np_float32\<close>.
\<close>

definition rotate_point_cloud :: "(nat \<Rightarrow> real) \<Rightarrow> array3 \<Rightarrow> array3" where
  "rotate_point_cloud u batch_data =
     map (\<lambda>k.
            let rotation_angle = u k * 2 * pi;
                cosval = cos rotation_angle;
                sinval = sin rotation_angle;
                rotation_matrix = [[cosval, 0, sinval], [0, 1, 0], [- sinval, 0, cosval]];
                shape_pc = batch_data ! k
            in map (map np_float32) (np_dot shape_pc rotation_matrix))
         [0..<length batch_data]"

text \<open>
  \<^verbatim>\<open>
  def rotate_perturbation_point_cloud(batch_data, angle_sigma=0.06, angle_clip=0.18):
      rotated_data = np.zeros(batch_data.shape, dtype=np.float32)
      for k in range(batch_data.shape[0]):
          angles = np.clip(angle_sigma * np.random.randn(3), -angle_clip, angle_clip)
          Rx = np.array([[1, 0, 0],
                         [0, np.cos(angles[0]), -np.sin(angles[0])],
                         [0, np.sin(angles[0]), np.cos(angles[0])]])
          Ry = np.array([[np.cos(angles[1]), 0, np.sin(angles[1])],
                         [0, 1, 0],
                         [-np.sin(angles[1]), 0, np.cos(angles[1])]])
          Rz = np.array([[np.cos(angles[2]), -np.sin(angles[2]), 0],
                         [np.sin(angles[2]), np.cos(angles[2]), 0],
                         [0, 0, 1]])
          R = np.dot(Rz, np.dot(Ry, Rx))
          shape_pc = batch_data[k, ...]
          rotated_data[k, ...] = np.dot(shape_pc.reshape((-1, 3)), R)
      return rotated_data
  \<close>
\<close>

definition rotate_perturbation_point_cloud ::
  "(nat \<Rightarrow> nat \<Rightarrow> real) \<Rightarrow> real \<Rightarrow> real \<Rightarrow> array3 \<Rightarrow> array3" where
  "rotate_perturbation_point_cloud z angle_sigma angle_clip batch_data =
     map (\<lambda>k.
            let angles = map (\<lambda>j. np_clip (angle_sigma * z k j) (- angle_clip) angle_clip)
                             [0..<3];
                Rx = [[1, 0, 0],
                      [0, cos (angles ! 0), - sin (angles ! 0)],
                      [0, sin (angles ! 0), cos (angles ! 0)]];
                Ry = [[cos (angles ! 1), 0, sin (angles ! 1)],
                      [0, 1, 0],
                      [- sin (angles ! 1), 0, cos (angles ! 1)]];
                Rz = [[cos (angles ! 2), - sin (angles ! 2), 0],
                      [sin (angles ! 2), cos (angles ! 2), 0],
                      [0, 0, 1]];
                R = np_dot Rz (np_dot Ry Rx);
                shape_pc = batch_data ! k
            in map (map np_float32) (np_dot shape_pc R))
         [0..<length batch_data]"

subsection \<open>The augmentation of the dataset adapters\<close>









subsection \<open>Farthest point sampling\<close>

text \<open>
  \<^verbatim>\<open>
  def farthest_point_sample(point, npoint):
      N, D = point.shape
      xyz = point[:, :3]
      centroids = np.zeros((npoint,))
      distance = np.ones((N,)) * 1e10
      farthest = np.random.randint(0, N)
      for i in range(npoint):
          centroids[i] = farthest
          centroid = xyz[farthest, :]
          dist = np.sum((xyz - centroid) ** 2, -1)
          mask = dist < distance
          distance[mask] = dist[mask]
          farthest = np.argmax(distance, -1)
      point = point[centroids.astype(np.int32)]
      return point
  \<close>
  The loop has run \<open>i\<close> times when \<open>centroids\<close> holds \<open>i\<close> indices; the model appends each
  index as the source stores it at position \<open>i\<close>. \<^verbatim>\<open>np.random.randint(0, N)\<close> raises
  \<^verbatim>\<open>ValueError\<close> for \<open>N = 0\<close> and otherwise returns an index below \<open>N\<close>: the draw \<open>r\<close> is any
  natural number and the index is \<open>r mod N\<close>.
\<close>

fun fps_loop :: "nat \<Rightarrow> array2 \<Rightarrow> array1 \<Rightarrow> nat \<Rightarrow> nat list \<Rightarrow> py_error + nat list" where
  "fps_loop 0 xyz distance farthest centroids = Inr centroids"
| "fps_loop (Suc n) xyz distance farthest centroids =
     (let centroids' = centroids @ [farthest];
          centroid = xyz ! farthest;
          dist = map (\<lambda>row. sum_list (map (\<lambda>x. x\<^sup>2) (map2 (-) row centroid))) xyz;
          distance' = map2 (\<lambda>d old. if d < old then d else old) dist distance
      in case np_argmax distance' of
           Inl e \<Rightarrow> Inl e
         | Inr farthest' \<Rightarrow> fps_loop n xyz distance' farthest' centroids')"

definition farthest_point_sample :: "nat \<Rightarrow> array2 \<Rightarrow> nat \<Rightarrow> py_error + array2" where
  "farthest_point_sample r point npoint =
     (let N = length point;
          xyz = map (take 3) point;
          distance = replicate N (10 ^ 10)
      in if N = 0 then Inl ValueError
         else case fps_loop npoint xyz distance (r mod N) [] of
                Inl e \<Rightarrow> Inl e
              | Inr centroids \<Rightarrow> Inr (map (\<lambda>c. point ! c) centroids))"

subsection \<open>ModelNet: retrieving a sample\<close>

text \<open>
  \<^verbatim>\<open>_get_item\<close> moves arrays between the cache, the sampler and the normaliser and writes
  one of them back; what the numbers in the arrays are does not matter to that. So the
  arrays here hold values of any type \<open>'a\<close>, and the numeric routines the method calls are
  given with the object: \<^verbatim>\<open>pc_normalize\<close>, \<^verbatim>\<open>farthest_point_sample\<close> (with its draw),
  \<^verbatim>\<open>.min()\<close> and the subtraction of two values. In the program \<open>'a\<close> is the type of the
  floating-point numbers, \<^verbatim>\<open>nan\<close> and the infinities included, and the routines are the
  floating-point ones: \<^verbatim>\<open>pc_normalize\<close> then returns an array for every array with a row, an
  array of \<^verbatim>\<open>nan\<close> when all its points coincide. \<open>over_reals\<close> are the routines of this
  theory, which compute with real numbers (and report \<^const>\<open>NaN_result\<close> in that case).
\<close>

record 'a routines =
  pc_normalize_fl :: "'a list list \<Rightarrow> py_error + 'a list list"
  farthest_point_sample_fl :: "nat \<Rightarrow> 'a list list \<Rightarrow> nat \<Rightarrow> py_error + 'a list list"
  min_fl :: "'a list \<Rightarrow> py_error + 'a"
  subtract_fl :: "'a \<Rightarrow> 'a \<Rightarrow> 'a"

text \<open>\<^verbatim>\<open>.min()\<close> of an array, given its entries; on an empty array it raises \<^verbatim>\<open>ValueError\<close>.\<close>

fun np_min :: "array1 \<Rightarrow> py_error + real" where
  "np_min [] = Inl ValueError"
| "np_min (x # xs) = Inr (fold min xs x)"

definition over_reals :: "real routines" where
  "over_reals =
     \<lparr>pc_normalize_fl = pc_normalize, farthest_point_sample_fl = farthest_point_sample,
      min_fl = np_min, subtract_fl = (-)\<rparr>"

text \<open>
  The fields of a \<^verbatim>\<open>ModelNet\<close> object that \<^verbatim>\<open>_get_item\<close> and \<^verbatim>\<open>__getitem__\<close> read or write.
  \<open>list_of_points\<close> and \<open>list_of_labels\<close> are the unpickled cache, a label being the array
  \<^verbatim>\<open>np.array([cls])\<close>. \<open>gravity_dim\<close> is \<open>None\<close> until the attribute is first assigned.
  \<open>raw_points\<close> and \<open>raw_classes\<close> stand for what the branch without the cache reads:
  \<^verbatim>\<open>np.loadtxt(self.datapath[index][1], delimiter=",").astype(np.float32)\<close> and
  \<^verbatim>\<open>self.classes[self.datapath[index][0]]\<close>.
\<close>

record 'a ModelNet =
  npoints :: nat
  use_normals :: bool
  use_height :: bool
  process_data :: bool
  uniform :: bool
  subset :: string
  list_of_points :: "'a list list list"
  list_of_labels :: "int list list"
  shape_names :: "string list"
  gravity_dim :: "nat option"
  raw_points :: "'a list list list"
  raw_classes :: "int list"

text \<open>
  The position a Python list index \<open>xs[i]\<close> reads: negative indices count from the end, and
  an index outside the list raises \<^verbatim>\<open>IndexError\<close>.
\<close>

definition py_index :: "'a list \<Rightarrow> int \<Rightarrow> py_error + nat" where
  "py_index xs i =
     (if 0 \<le> i \<and> i < int (length xs) then Inr (nat i)
      else if i < 0 \<and> - int (length xs) \<le> i then Inr (nat (int (length xs) + i))
      else Inl IndexError)"

text \<open>
  The first statement of \<^verbatim>\<open>_get_item\<close>:
  \<^verbatim>\<open>
  if self.process_data:
      point_set, label = self.list_of_points[index], self.list_of_labels[index]
  else:
      fn = self.datapath[index]
      cls = self.classes[self.datapath[index][0]]
      label = np.array([cls]).astype(np.int32)
      point_set = np.loadtxt(fn[1], delimiter=",").astype(np.float32)
      if self.uniform:
          point_set = farthest_point_sample(point_set, self.npoints)
      else:
          point_set = point_set[0 : self.npoints, :]
  \<close>
  With the cache, \<^verbatim>\<open>point_set\<close> is the cached array itself, not a copy: the third component
  of the result is the position of the cache entry that \<^verbatim>\<open>point_set\<close> is, if it is one.
\<close>

definition ModelNet_load ::
  "'a routines \<Rightarrow> nat \<Rightarrow> 'a ModelNet \<Rightarrow> int \<Rightarrow>
     py_error + 'a list list \<times> int list \<times> nat option" where
  "ModelNet_load fl r self index =
     (if process_data self then
        (case py_index (list_of_points self) index of
           Inl e \<Rightarrow> Inl e
         | Inr k \<Rightarrow>
             (case py_index (list_of_labels self) index of
                Inl e \<Rightarrow> Inl e
              | Inr k' \<Rightarrow> Inr (list_of_points self ! k, list_of_labels self ! k', Some k)))
      else
        (case py_index (raw_points self) index of
           Inl e \<Rightarrow> Inl e
         | Inr k \<Rightarrow>
             (case py_index (raw_classes self) index of
                Inl e \<Rightarrow> Inl e
              | Inr k' \<Rightarrow>
                  (let label = [raw_classes self ! k'];
                       point_set = raw_points self ! k
                   in if uniform self then
                        (case farthest_point_sample_fl fl r point_set (npoints self) of
                           Inl e \<Rightarrow> Inl e
                         | Inr sampled \<Rightarrow> Inr (sampled, label, None))
                      else Inr (take (npoints self) point_set, label, None)))))"

text \<open>
  \<^verbatim>\<open>
  if self.npoints < point_set.shape[0]:
      point_set = farthest_point_sample(point_set, self.npoints)
  \<close>
  \<^verbatim>\<open>farthest_point_sample\<close> returns a new array (indexing with an index array copies), so
  after it \<^verbatim>\<open>point_set\<close> is no longer a cache entry.
\<close>

definition ModelNet_resample ::
  "'a routines \<Rightarrow> nat \<Rightarrow> 'a ModelNet \<Rightarrow> 'a list list \<Rightarrow> nat option \<Rightarrow>
     py_error + 'a list list \<times> nat option" where
  "ModelNet_resample fl r self point_set entry =
     (if npoints self < length point_set
      then (case farthest_point_sample_fl fl r point_set (npoints self) of
              Inl e \<Rightarrow> Inl e
            | Inr sampled \<Rightarrow> Inr (sampled, None))
      else Inr (point_set, entry))"

text \<open>
  \<^verbatim>\<open>
  point_set[:, 0:3] = pc_normalize(point_set[:, 0:3])
  \<close>
  The assignment writes into the array \<^verbatim>\<open>point_set\<close> is, and so into the cache when
  \<^verbatim>\<open>point_set\<close> is a cache entry: the object is returned as the statement leaves it.
\<close>

definition ModelNet_normalize_in_place ::
  "'a routines \<Rightarrow> 'a ModelNet \<Rightarrow> 'a list list \<Rightarrow> nat option \<Rightarrow>
     py_error + 'a ModelNet \<times> 'a list list" where
  "ModelNet_normalize_in_place fl self point_set entry =
     (case pc_normalize_fl fl (map (take 3) point_set) of
        Inl e \<Rightarrow> Inl e
      | Inr normalized \<Rightarrow>
          (let written = map2 (\<lambda>row n. n @ drop 3 row) point_set normalized
           in case entry of
                None \<Rightarrow> Inr (self, written)
              | Some k \<Rightarrow>
                  Inr (self\<lparr>list_of_points := (list_of_points self)[k := written]\<rparr>, written)))"

text \<open>
  \<^verbatim>\<open>
  if not self.use_normals:
      point_set = point_set[:, 0:3]

  if self.use_height:
      self.gravity_dim = 1
      height_array = (
          point_set[:, self.gravity_dim : self.gravity_dim + 1]
          - point_set[:, self.gravity_dim : self.gravity_dim + 1].min()
      )
      point_set = np.concatenate((point_set, height_array), axis=1)
  \<close>
  Nothing is written into \<^verbatim>\<open>point_set\<close> from here on.
\<close>

definition ModelNet_columns ::
  "'a routines \<Rightarrow> 'a ModelNet \<Rightarrow> 'a list list \<Rightarrow> py_error + 'a ModelNet \<times> 'a list list" where
  "ModelNet_columns fl self point_set =
     (let point_set1 = (if \<not> use_normals self then map (take 3) point_set else point_set)
      in if use_height self then
           (let column = map (\<lambda>row. take 1 (drop 1 row)) point_set1
            in case min_fl fl (concat column) of
                 Inl e \<Rightarrow> Inl e
               | Inr lowest \<Rightarrow>
                   Inr (self\<lparr>gravity_dim := Some 1\<rparr>,
                        map2 (@) point_set1 (map (map (\<lambda>x. subtract_fl fl x lowest)) column)))
         else Inr (self, point_set1))"

text \<open>
  \<^verbatim>\<open>_get_item\<close>: the four steps in turn, then \<^verbatim>\<open>return point_set, label[0]\<close>. The call
  returns the object as it leaves it, with the result. A call that raises returns the
  exception only; the state it leaves behind is not tracked.
\<close>

definition ModelNet_get_item ::
  "'a routines \<Rightarrow> nat \<Rightarrow> nat \<Rightarrow> 'a ModelNet \<Rightarrow> int \<Rightarrow>
     py_error + 'a ModelNet \<times> 'a list list \<times> int" where
  "ModelNet_get_item fl r1 r2 self index =
     (case ModelNet_load fl r1 self index of
        Inl e \<Rightarrow> Inl e
      | Inr (loaded, label, entry) \<Rightarrow>
          (case ModelNet_resample fl r2 self loaded entry of
             Inl e \<Rightarrow> Inl e
           | Inr (point_set, entry') \<Rightarrow>
               (case ModelNet_normalize_in_place fl self point_set entry' of
                  Inl e \<Rightarrow> Inl e
                | Inr (self1, written) \<Rightarrow>
                    (case ModelNet_columns fl self1 written of
                       Inl e \<Rightarrow> Inl e
                     | Inr (self2, point_set2) \<Rightarrow>
                         (case label of
                            [] \<Rightarrow> Inl IndexError
                          | cls # _ \<Rightarrow> Inr (self2, point_set2, cls))))))"

text \<open>
  \<^verbatim>\<open>
  def __getitem__(self, index):
      points, label = self._get_item(index)
      pt_idxs = np.arange(0, points.shape[0])
      if self.subset == "train":
          np.random.shuffle(pt_idxs)
      current_points = points[pt_idxs].copy()
      current_points = torch.from_numpy(current_points).float()
      label_name = self.shape_names[int(label)]
      return Sample({"pc": current_points, "label": label, "class_name": label_name})
  \<close>
  \<open>shuffle\<close> is what \<^verbatim>\<open>np.random.shuffle\<close> does to the index array, a permutation of it.
  The fields of the returned \<^verbatim>\<open>Sample\<close> are \<^verbatim>\<open>pc\<close>, \<^verbatim>\<open>label\<close> and \<^verbatim>\<open>class_name\<close>; the
  conversion of the points to a torch tensor of floats is left out.
\<close>

record 'a sample =
  sample_pc :: "'a list list"
  sample_label :: int
  sample_class_name :: string

definition ModelNet_getitem ::
  "'a routines \<Rightarrow> nat \<Rightarrow> nat \<Rightarrow> (nat list \<Rightarrow> nat list) \<Rightarrow> 'a ModelNet \<Rightarrow> int \<Rightarrow>
     py_error + 'a ModelNet \<times> 'a sample" where
  "ModelNet_getitem fl r1 r2 shuffle self index =
     (case ModelNet_get_item fl r1 r2 self index of
        Inl e \<Rightarrow> Inl e
      | Inr (self', points, label) \<Rightarrow>
          (let pt_idxs = [0..<length points];
               pt_idxs = (if subset self = ''train'' then shuffle pt_idxs else pt_idxs);
               current_points = map (\<lambda>i. points ! i) pt_idxs
           in case py_index (shape_names self') label of
                Inl e \<Rightarrow> Inl e
              | Inr k \<Rightarrow>
                  Inr (self', \<lparr>sample_pc = current_points, sample_label = label,
                              sample_class_name = shape_names self' ! k\<rparr>)))"

subsection \<open>Collation\<close>

text \<open>
  A torch tensor: its shape and its entries in row-major order. \<^verbatim>\<open>t[i]\<close> is the \<open>i\<close>-th slice
  along the first dimension; it raises \<^verbatim>\<open>IndexError\<close> on a tensor of no dimension and for
  \<open>i\<close> not below the first dimension.
\<close>

datatype tensor = Tensor (shape: "nat list") (elements: "real list")

fun tensor_getitem :: "tensor \<Rightarrow> nat \<Rightarrow> py_error + tensor" where
  "tensor_getitem (Tensor [] xs) i = Inl IndexError"
| "tensor_getitem (Tensor (n # rest) xs) i =
     (if i < n then Inr (Tensor rest (take (prod_list rest) (drop (i * prod_list rest) xs)))
      else Inl IndexError)"

text \<open>
  \<^verbatim>\<open>torch.stack(batch, 0)\<close>: the tensors, all of one shape, along a new first dimension. It
  raises \<^verbatim>\<open>RuntimeError\<close> on an empty list and on tensors of different shapes.
\<close>

fun torch_stack :: "tensor list \<Rightarrow> py_error + tensor" where
  "torch_stack [] = Inl RuntimeError"
| "torch_stack (t # ts) =
     (if list_all (\<lambda>x. shape x = shape t) ts
      then Inr (Tensor (length (t # ts) # shape t) (concat (map elements (t # ts))))
      else Inl RuntimeError)"

text \<open>
  \<^verbatim>\<open>[example for example in batch if example[4] is not None]\<close> on a list of tensors:
  \<^verbatim>\<open>example[4]\<close> is evaluated for each tensor in turn, and a tensor it returns is never
  \<^verbatim>\<open>None\<close>, so every example is kept unless the indexing raises.
\<close>

fun keep_not_none :: "tensor list \<Rightarrow> py_error + tensor list" where
  "keep_not_none [] = Inr []"
| "keep_not_none (example # rest) =
     (case tensor_getitem example 4 of
        Inl e \<Rightarrow> Inl e
      | Inr field \<Rightarrow>
          (case keep_not_none rest of Inl e \<Rightarrow> Inl e | Inr kept \<Rightarrow> Inr (example # kept)))"

text \<open>
  \<^verbatim>\<open>customized_collate_fn\<close> on a list of tensors:
  \<^verbatim>\<open>
  def customized_collate_fn(batch):
      r"""Puts each data field into a tensor with outer dimension batch size"""
      elem = batch[0]
      elem_type = type(elem)

      if isinstance(batch, list):
          batch = [example for example in batch if example[4] is not None]

      if isinstance(elem, torch.Tensor):
          out = None
          if torch.utils.data.get_worker_info() is not None:
              numel = sum([x.numel() for x in batch])
              storage = elem.storage()._new_shared(numel)
              out = elem.new(storage)
          return torch.stack(batch, 0, out=out)
  \<close>
  \<^verbatim>\<open>batch\<close> is a list and \<^verbatim>\<open>elem\<close> a tensor, so both tests hold and the later branches are not
  reached. \<^verbatim>\<open>out\<close> only chooses the memory the stacked tensor is written to.
\<close>

definition customized_collate_fn :: "tensor list \<Rightarrow> py_error + tensor" where
  "customized_collate_fn batch =
     (case batch of
        [] \<Rightarrow> Inl IndexError
      | elem # _ \<Rightarrow>
          (case keep_not_none batch of
             Inl e \<Rightarrow> Inl e
           | Inr batch' \<Rightarrow> torch_stack batch'))"

section \<open>Properties\<close>

subsection \<open>The bucket lookup\<close>

lemma length_cumsum_from: "length (cumsum_from acc ns) = length ns"
  by (induction ns arbitrary: acc) simp_all

lemma cumsum_from_nth:
  "i < length ns \<Longrightarrow> cumsum_from acc ns ! i = acc + int (sum_list (take (Suc i) ns))"
proof (induction ns arbitrary: acc i)
  case Nil
  then show ?case by simp
next
  case (Cons n ns)
  show ?case
  proof (cases i)
    case 0
    then show ?thesis by simp
  next
    case (Suc j)
    with Cons.prems have "j < length ns" by simp
    from Cons.IH [OF this, of "acc + int n"] Suc show ?thesis by simp
  qed
qed

lemma find_bucket_loop_None:
  "find_bucket_loop ident scales bid = None \<Longrightarrow> \<forall>s \<in> set scales. s \<le> ident"
  by (induction scales arbitrary: bid) (auto split: if_splits)

lemma find_bucket_loop_Some:
  "find_bucket_loop ident scales bid0 = Some bid \<Longrightarrow>
     bid0 \<le> bid \<and> bid - bid0 < length scales \<and> ident < scales ! (bid - bid0) \<and>
     (\<forall>j < bid - bid0. scales ! j \<le> ident)"
proof (induction scales arbitrary: bid0)
  case Nil
  then show ?case by simp
next
  case (Cons scale rest)
  show ?case
  proof (cases "ident \<ge> scale")
    case True
    with Cons.prems have rec: "find_bucket_loop ident rest (bid0 + 1) = Some bid" by simp
    from Cons.IH [OF rec] have ih:
      "bid0 + 1 \<le> bid" "bid - (bid0 + 1) < length rest"
      "ident < rest ! (bid - (bid0 + 1))" "\<forall>j < bid - (bid0 + 1). rest ! j \<le> ident"
      by simp_all
    from ih(1) obtain d where d: "bid - bid0 = Suc d" "bid - (bid0 + 1) = d"
      by (metis Suc_diff_Suc Suc_eq_plus1 Suc_le_lessD diff_diff_left)
    have "\<forall>j < Suc d. (scale # rest) ! j \<le> ident"
    proof (intro allI impI)
      fix j assume "j < Suc d"
      then show "(scale # rest) ! j \<le> ident"
        using True ih(4) d(2) by (cases j) simp_all
    qed
    with ih d show ?thesis by simp
  next
    case False
    with Cons.prems show ?thesis by simp
  qed
qed

lemma cumsum_last:
  "ns \<noteq> [] \<Longrightarrow> cumsum ns ! (length ns - 1) = int (sum_list ns)"
  by (simp add: cumsum_def cumsum_from_nth)

text \<open>
  Claim C6. For \<open>0 \<le> index < total\<close>, where \<open>total\<close> is the sum of the buckets' entry counts,
  \<^const>\<open>find_bucket\<close> returns a bucket id (never \<^verbatim>\<open>None\<close>), the index lies in that bucket's
  cumulative range, with lower bound 0 for bucket 0, and the key \<^verbatim>\<open>index - initial_idx\<close>
  computed by \<^verbatim>\<open>__getitem__\<close> is an offset inside the bucket.
\<close>

theorem find_bucket_in_range:
  assumes "0 \<le> index" and "index < int (sum_list entries)"
  shows "\<exists>bid. find_bucket index (cumsum entries) = Some bid \<and> bid < length entries \<and>
           (if bid = 0 then 0 else cumsum entries ! (bid - 1)) \<le> index \<and>
           index < cumsum entries ! bid \<and>
           Objverse_locate index (cumsum entries) =
             Inr (bid, index - (if bid = 0 then 0 else cumsum entries ! (bid - 1))) \<and>
           0 \<le> index - (if bid = 0 then 0 else cumsum entries ! (bid - 1)) \<and>
           index - (if bid = 0 then 0 else cumsum entries ! (bid - 1)) < int (entries ! bid)"
proof -
  let ?cum = "cumsum entries"
  from assms have ne: "entries \<noteq> []" by auto
  have len: "length ?cum = length entries"
    by (simp add: cumsum_def length_cumsum_from)
  have "find_bucket index ?cum \<noteq> None"
  proof
    assume "find_bucket index ?cum = None"
    then have "\<forall>s \<in> set ?cum. s \<le> index"
      unfolding find_bucket_def by (rule find_bucket_loop_None)
    moreover have "?cum ! (length entries - 1) \<in> set ?cum"
      using ne len by simp
    ultimately have "?cum ! (length entries - 1) \<le> index" by blast
    with cumsum_last [OF ne] assms(2) show False by simp
  qed
  then obtain bid where bid: "find_bucket index ?cum = Some bid" by blast
  from find_bucket_loop_Some [OF bid [unfolded find_bucket_def]]
  have b: "bid < length entries" "index < ?cum ! bid" "\<forall>j < bid. ?cum ! j \<le> index"
    using len by simp_all
  let ?init = "if bid = 0 then 0 else ?cum ! (bid - 1)"
  have lo: "?init \<le> index"
    using assms(1) b(3) by (cases bid) simp_all
  have width: "?cum ! bid - ?init = int (entries ! bid)"
  proof (cases bid)
    case 0
    with b(1) show ?thesis
      by (cases entries) (simp_all add: cumsum_def)
  next
    case (Suc k)
    with b(1) have k: "k < length entries" "Suc k < length entries" by simp_all
    have "take (Suc (Suc k)) entries = take (Suc k) entries @ [entries ! Suc k]"
      using k(2) by (simp add: take_Suc_conv_app_nth)
    then show ?thesis
      using Suc k by (simp add: cumsum_def cumsum_from_nth)
  qed
  have loc: "Objverse_locate index ?cum = Inr (bid, index - ?init)"
    using bid by (simp add: Objverse_locate_def)
  from bid b(1) lo b(2) loc width show ?thesis by auto
qed

theorem find_bucket_in_range_witness:
  "find_bucket 4 (cumsum [3, 2, 5]) = Some 1 \<and>
   Objverse_locate 4 (cumsum [3, 2, 5]) = Inr (1, 1) \<and>
   (\<exists>bid. find_bucket 4 (cumsum [3, 2, 5]) = Some bid \<and> bid < length [3, 2, 5 :: nat] \<and>
      4 < cumsum [3, 2, 5] ! bid)"
proof -
  have "(0::int) \<le> 4" and "(4::int) < int (sum_list [3, 2, 5])" by simp_all
  from find_bucket_in_range [OF this] show ?thesis
    by (auto simp: find_bucket_def cumsum_def Objverse_locate_def)
qed

subsection \<open>Normalisation\<close>

text \<open>
  Claim C8. The three normalisation routines \<^const>\<open>pc_normalize\<close>, \<^const>\<open>Objverse_pc_norm\<close> and
  \<^const>\<open>ShapeNet_pc_norm\<close> return the same result on every array: the same array, or the
  same failure.
\<close>

theorem pc_norm_copies_agree:
  "pc_normalize pc = Objverse_pc_norm pc \<and> Objverse_pc_norm pc = ShapeNet_pc_norm pc"
  by (simp add: pc_normalize_def Objverse_pc_norm_def ShapeNet_pc_norm_def)

theorem pc_norm_copies_agree_witness:
  "Objverse_pc_norm [[0, 0, 0], [2, 0, 0]] = Inr [[-1, 0, 0], [1, 0, 0]] \<and>
   ShapeNet_pc_norm [[0, 0, 0], [2, 0, 0]] = Inr [[-1, 0, 0], [1, 0, 0]] \<and>
   pc_normalize [] = ShapeNet_pc_norm []"
proof -
  have e: "pc_normalize [[0, 0, 0], [2, 0, 0]] = Inr [[-1, 0, 0], [1, 0, 0]]"
    by (simp add: pc_normalize_def np_mean_axis0_def ncols_def row_norms_def upt_rec)
  from pc_norm_copies_agree [of "[[0, 0, 0], [2, 0, 0]]"] pc_norm_copies_agree [of "[]"] e
  show ?thesis by simp
qed


subsection \<open>Augmentation\<close>

lemma np_float32_binade:
  assumes "2 powr of_int m \<le> \<bar>x\<bar>" and "\<bar>x\<bar> < 2 powr of_int (m + 1)" and "- 126 \<le> m"
  shows "np_float32 x =
           of_int (round_half_even (x / 2 powr of_int (m - 23))) * 2 powr of_int (m - 23)"
proof -
  have pos: "0 < \<bar>x\<bar>"
    using assms(1) by (smt (verit) powr_gt_zero)
  then have nz: "x \<noteq> 0" by auto
  have "of_int m \<le> log 2 \<bar>x\<bar>"
    using assms(1) pos by (simp add: le_log_iff)
  moreover have "log 2 \<bar>x\<bar> < of_int m + 1"
    using assms(2) pos by (simp add: log_less_iff)
  ultimately have "\<lfloor>log 2 \<bar>x\<bar>\<rfloor> = m"
    by (simp add: floor_eq_iff)
  moreover have "max (m - 23) (- 149) = m - 23"
    using assms(3) by simp
  ultimately show ?thesis
    using nz by (simp add: np_float32_def Let_def)
qed


lemma np_float32_2: "np_float32 2 = 2"
  using np_float32_binade [of 1 2]
  by (simp add: powr_minus_divide round_half_even_def Let_def)


lemma np_float32_7_10: "np_float32 (7 / 10) = 11744051 / 16777216"
  using np_float32_binade [of "- 1" "7 / 10"]
  by (simp add: powr_minus_divide round_half_even_def Let_def)




lemma has_shape3_nth:
  "has_shape3 B N C a \<longleftrightarrow>
     length a = B \<and> (\<forall>b < B. length (a ! b) = N \<and> (\<forall>i < N. length (a ! b ! i) = C))"
  unfolding has_shape3_def list_all_length by auto

lemma length_np_dot: "length (np_dot a m) = length a"
  by (simp add: np_dot_def)

lemma length_np_dot_row: "i < length a \<Longrightarrow> length (np_dot a m ! i) = ncols m"
  by (simp add: np_dot_def)

lemma dropout_shape:
  assumes "has_shape3 B N C a"
  shows "has_shape3 B N C (random_point_dropout rd md mx a)"
  using assms 
  by (auto simp: has_shape3_nth random_point_dropout_def Let_def)

lemma scale_shape:
  assumes "has_shape3 B N C a"
  shows "has_shape3 B N C (random_scale_point_cloud u lo hi a)"
  using assms by (auto simp: has_shape3_nth random_scale_point_cloud_def Let_def)

lemma shift_shape:
  assumes "has_shape3 B N 3 a"
  shows "has_shape3 B N 3 (shift_point_cloud u r a)"
  using assms by (auto simp: has_shape3_nth shift_point_cloud_def Let_def)

lemma jitter_shape:
  assumes "has_shape3 B N C a" "0 < clip"
  shows "\<exists>out. jitter_point_cloud z sigma clip a = Inr out \<and> has_shape3 B N C out"
  using assms by (auto simp: has_shape3_nth jitter_point_cloud_def Let_def)

lemma rotate_shape:
  assumes "has_shape3 B N C a"
  shows "has_shape3 B N 3 (rotate_point_cloud u a)"
  using assms by (auto simp: has_shape3_nth rotate_point_cloud_def Let_def length_np_dot length_np_dot_row ncols_def)

lemma perturb_shape:
  assumes "has_shape3 B N C a"
  shows "has_shape3 B N 3 (rotate_perturbation_point_cloud z s c a)"
  using assms by (auto simp: has_shape3_nth rotate_perturbation_point_cloud_def Let_def length_np_dot length_np_dot_row ncols_def np_dot_def)


text \<open>
  Claim C4. Each of the six augmentation functions maps a batch of shape \<open>B \<times> N \<times> 3\<close> to a
  batch of shape \<open>B \<times> N \<times> 3\<close>, whatever is drawn. \<^const>\<open>jitter_point_cloud\<close> asserts
  \<open>clip > 0\<close>, which its default \<open>0.05\<close> meets.
\<close>

theorem augmentations_preserve_shape:
  assumes "has_shape3 B N 3 a" and "0 < clip"
  shows "has_shape3 B N 3 (random_point_dropout rd md max_dropout_ratio a) \<and>
         has_shape3 B N 3 (random_scale_point_cloud us scale_low scale_high a) \<and>
         has_shape3 B N 3 (shift_point_cloud uh shift_range a) \<and>
         (\<exists>out. jitter_point_cloud zj sigma clip a = Inr out \<and> has_shape3 B N 3 out) \<and>
         has_shape3 B N 3 (rotate_point_cloud ur a) \<and>
         has_shape3 B N 3 (rotate_perturbation_point_cloud zp angle_sigma angle_clip a)"
proof (intro conjI)
  show "has_shape3 B N 3 (random_point_dropout rd md max_dropout_ratio a)"
    using assms(1) by (rule dropout_shape)
  show "has_shape3 B N 3 (random_scale_point_cloud us scale_low scale_high a)"
    using assms(1) by (rule scale_shape)
  show "has_shape3 B N 3 (shift_point_cloud uh shift_range a)"
    using assms(1) by (rule shift_shape)
  show "\<exists>out. jitter_point_cloud zj sigma clip a = Inr out \<and> has_shape3 B N 3 out"
    using assms by (rule jitter_shape)
  show "has_shape3 B N 3 (rotate_point_cloud ur a)"
    using assms(1) by (rule rotate_shape)
  show "has_shape3 B N 3 (rotate_perturbation_point_cloud zp angle_sigma angle_clip a)"
    using assms(1) by (rule perturb_shape)
qed

theorem augmentations_preserve_shape_witness:
  "has_shape3 1 2 3 [[[1, 2, 3], [4, 5, 6 :: real]]] \<and>
   has_shape3 1 2 3
     (random_point_dropout (\<lambda>b. 1) (\<lambda>b i. if i = 1 then 0 else 1) (7 / 8)
        [[[1, 2, 3], [4, 5, 6 :: real]]]) \<and>
   has_shape3 1 2 3 (random_scale_point_cloud (\<lambda>b. 0) (4 / 5) (5 / 4) [[[1, 2, 3], [4, 5, 6]]]) \<and>
   has_shape3 1 2 3 (shift_point_cloud (\<lambda>b j. 1) (1 / 10) [[[1, 2, 3], [4, 5, 6]]]) \<and>
   (\<exists>out. jitter_point_cloud (\<lambda>b n c. 1) (1 / 100) (1 / 20) [[[1, 2, 3], [4, 5, 6]]] = Inr out \<and>
      has_shape3 1 2 3 out) \<and>
   has_shape3 1 2 3 (rotate_point_cloud (\<lambda>k. 1 / 4) [[[1, 2, 3], [4, 5, 6]]]) \<and>
   has_shape3 1 2 3
     (rotate_perturbation_point_cloud (\<lambda>k j. 1) (3 / 50) (9 / 50) [[[1, 2, 3], [4, 5, 6]]])"
proof -
  have h: "has_shape3 1 2 3 [[[1, 2, 3], [4, 5, 6 :: real]]]"
    by (simp add: has_shape3_def)
  have c: "(0::real) < 1 / 20" by simp
  from h augmentations_preserve_shape [OF h c] show ?thesis by blast
qed

text \<open>
  Claim C10. \<^const>\<open>random_point_dropout\<close> introduces no new point: in every cloud of a
  \<open>B \<times> N \<times> C\<close> batch, whatever is drawn, each output point is the input point at the same
  index or the input's first point, the first point is unchanged, and the set of points of
  the output cloud is a subset of that of the input cloud.
\<close>

theorem dropout_keeps_points:
  assumes "has_shape3 B N C a" and "b < B"
  shows "length (random_point_dropout rd md mx a) = B \<and>
         length (random_point_dropout rd md mx a ! b) = N \<and>
         (\<forall>i < N. random_point_dropout rd md mx a ! b ! i = a ! b ! i \<or>
                  random_point_dropout rd md mx a ! b ! i = a ! b ! 0) \<and>
         (0 < N \<longrightarrow> random_point_dropout rd md mx a ! b ! 0 = a ! b ! 0) \<and>
         set (random_point_dropout rd md mx a ! b) \<subseteq> set (a ! b)"
proof -
  let ?out = "random_point_dropout rd md mx a"
  from assms have len: "length a = B" "length (a ! b) = N"
    by (simp_all add: has_shape3_nth)
  have l1: "length ?out = B"
    using len by (simp add: random_point_dropout_def)
  have l2: "length (?out ! b) = N"
    using len assms(2) by (simp add: random_point_dropout_def Let_def)
  have pt: "?out ! b ! i = a ! b ! i \<or> ?out ! b ! i = a ! b ! 0" if "i < N" for i
    using len assms(2) that by (simp add: random_point_dropout_def Let_def)
  have first: "?out ! b ! 0 = a ! b ! 0" if "0 < N"
    using pt [OF that] by auto
  have sub: "set (?out ! b) \<subseteq> set (a ! b)"
  proof
    fix p assume "p \<in> set (?out ! b)"
    then obtain i where i: "i < N" "p = ?out ! b ! i"
      using l2 by (auto simp: in_set_conv_nth)
    then have pos: "0 < N" by simp
    from pt [OF i(1)] show "p \<in> set (a ! b)"
    proof
      assume "?out ! b ! i = a ! b ! i"
      with i len show ?thesis by simp
    next
      assume "?out ! b ! i = a ! b ! 0"
      with i pos len show ?thesis by simp
    qed
  qed
  from l1 l2 pt first sub show ?thesis by blast
qed

theorem dropout_keeps_points_witness:
  "random_point_dropout (\<lambda>b. 1) (\<lambda>b i. if i = 1 then 0 else 1) (7 / 8)
     [[[1, 2, 3], [4, 5, 6 :: real], [7, 8, 9]]] = [[[1, 2, 3], [1, 2, 3], [7, 8, 9]]] \<and>
   set (random_point_dropout (\<lambda>b. 1) (\<lambda>b i. if i = 1 then 0 else 1) (7 / 8)
     [[[1, 2, 3], [4, 5, 6 :: real], [7, 8, 9]]] ! 0) \<subseteq> set [[1, 2, 3], [4, 5, 6], [7, 8, 9]]"
proof -
  have h: "has_shape3 1 3 3 [[[1, 2, 3], [4, 5, 6 :: real], [7, 8, 9]]]"
    by (simp add: has_shape3_def)
  have e: "random_point_dropout (\<lambda>b. 1) (\<lambda>b i. if i = 1 then 0 else 1) (7 / 8)
     [[[1, 2, 3], [4, 5, 6 :: real], [7, 8, 9]]] = [[[1, 2, 3], [1, 2, 3], [7, 8, 9]]]"
    by (simp add: random_point_dropout_def ncols_def upt_rec)
  from dropout_keeps_points [OF h, of 0 "\<lambda>b. 1" "\<lambda>b i. if i = 1 then 0 else 1" "7 / 8"] e
  show ?thesis by simp
qed

lemma upt_3: "[0..<3] = [0, 1, 2::nat]"
  by (simp add: upt_rec)

lemma np_dot_3x3_nth:
  assumes "i < length a" and "length (m ! 0) = 3" and "length m = 3"
  shows "np_dot a m ! i =
    [a ! i ! 0 * m ! 0 ! 0 + a ! i ! 1 * m ! 1 ! 0 + a ! i ! 2 * m ! 2 ! 0,
     a ! i ! 0 * m ! 0 ! 1 + a ! i ! 1 * m ! 1 ! 1 + a ! i ! 2 * m ! 2 ! 1,
     a ! i ! 0 * m ! 0 ! 2 + a ! i ! 1 * m ! 1 ! 2 + a ! i ! 2 * m ! 2 ! 2]"
proof -
  from assms(2,3) have "ncols m = 3" by (cases m) (simp_all add: ncols_def)
  with assms(1,3) show ?thesis by (simp add: np_dot_def upt_3)
qed

lemma rotate_point_cloud_height:
  assumes "has_shape3 B N 3 a" and "k < B" and "i < N"
  shows "rotate_point_cloud u a ! k ! i ! 1 = np_float32 (a ! k ! i ! 1)"
proof -
  from assms have len: "length a = B" "length (a ! k) = N"
    by (simp_all add: has_shape3_nth)
  let ?m = "[[cos (u k * 2 * pi), 0, sin (u k * 2 * pi)], [0, 1, 0],
             [- sin (u k * 2 * pi), 0, cos (u k * 2 * pi)]]"
  have "rotate_point_cloud u a ! k ! i = map np_float32 (np_dot (a ! k) ?m ! i)"
    using len assms(2,3) by (simp add: rotate_point_cloud_def Let_def length_np_dot)
  moreover have "np_dot (a ! k) ?m ! i ! 1 = a ! k ! i ! 1"
    using len(2) assms(3) by (subst np_dot_3x3_nth) simp_all
  moreover have "length (np_dot (a ! k) ?m ! i) = 3"
    using len(2) assms(3) by (simp add: length_np_dot_row ncols_def)
  ultimately show ?thesis by simp
qed

text \<open>
  Claim C9, as stated: for every \<open>B \<times> N \<times> 3\<close> input and every angle, the second coordinate
  of every output point equals that of the input point. It does not for every input: the
  output is an array of \<^verbatim>\<open>float32\<close>, so a second coordinate that no \<^verbatim>\<open>float32\<close> holds, such
  as the \<^verbatim>\<open>float64\<close> nearest to \<open>0.7\<close>, comes back rounded. Here \<open>7/10\<close> comes back as
  \<open>11744051 / 2\<^sup>2\<^sup>4\<close>, that is \<open>0.699999988\<close>.
\<close>

theorem rotate_rounds_height:
  "rotate_point_cloud (\<lambda>k. 0) [[[0, 7 / 10, 0]]] ! 0 ! 0 ! 1 = 11744051 / 16777216 \<and>
   [0, 7 / 10, 0 :: real] ! 1 \<noteq> 11744051 / 16777216"
proof -
  have h: "has_shape3 1 1 3 [[[0, 7 / 10, 0 :: real]]]"
    by (simp add: has_shape3_def)
  from rotate_point_cloud_height [OF h, of 0 0 "\<lambda>k. 0"] show ?thesis
    by (simp add: np_float32_7_10)
qed

text \<open>
  Claim C9, amended. \<^const>\<open>rotate_point_cloud\<close> rotates about the second (up) axis: for
  every \<open>B \<times> N \<times> 3\<close> input of finite numbers and every angle, the second coordinate of an
  output point equals that of the input point whenever the latter is a \<^verbatim>\<open>float32\<close> number,
  as it is for every \<^verbatim>\<open>float32\<close> input. The matrix has the middle row and column
  \<open>(0, 1, 0)\<close>, so the second coordinate is \<open>x * 0 + y * 1 + z * 0\<close>, which floating point
  computes without rounding.
\<close>

theorem rotate_keeps_height:
  assumes "has_shape3 B N 3 a" and "k < B" and "i < N"
    and "is_float32 (a ! k ! i ! 1)"
  shows "rotate_point_cloud u a ! k ! i ! 1 = a ! k ! i ! 1"
  using rotate_point_cloud_height [OF assms(1-3)] assms(4) by (simp add: is_float32_def)

theorem rotate_keeps_height_witness:
  "is_float32 ([[[1, 2, 3]]] ! 0 ! 0 ! 1) \<and>
   rotate_point_cloud (\<lambda>k. 1 / 4) [[[1, 2, 3]]] ! 0 ! 0 ! 1 = [1, 2, 3 :: real] ! 1"
proof -
  have h: "has_shape3 1 1 3 [[[1, 2, 3 :: real]]]"
    by (simp add: has_shape3_def)
  have f: "is_float32 ([[[1, 2, 3]]] ! 0 ! 0 ! 1)"
    by (simp add: is_float32_def np_float32_2)
  from f rotate_keeps_height [OF h _ _ f, where u = "\<lambda>k. 1 / 4"] show ?thesis by simp
qed

subsection \<open>Farthest point sampling\<close>

lemma argmax_from_bound:
  "best < i \<Longrightarrow> argmax_from best v i xs < i + length xs"
proof (induction xs arbitrary: best v i)
  case Nil
  then show ?case by simp
next
  case (Cons x xs)
  have a: "argmax_from i x (Suc i) xs < Suc i + length xs"
    by (rule Cons.IH) simp
  have b: "argmax_from best v (Suc i) xs < Suc i + length xs"
    by (rule Cons.IH) (use Cons.prems in simp)
  from a b show ?case by simp
qed

lemma np_argmax_bound:
  "xs \<noteq> [] \<Longrightarrow> \<exists>k. np_argmax xs = Inr k \<and> k < length xs"
proof (cases xs)
  case Nil
  then show "xs \<noteq> [] \<Longrightarrow> ?thesis" by simp
next
  case (Cons x rest)
  have "argmax_from 0 x 1 rest < 1 + length rest"
    by (rule argmax_from_bound) simp
  with Cons show ?thesis by simp
qed

lemma fps_loop_result:
  assumes "xyz \<noteq> []" and "length distance = length xyz"
  shows "\<exists>cs. fps_loop n xyz distance farthest acc = Inr cs \<and>
           length cs = length acc + n \<and> take (length acc) cs = acc \<and>
           (0 < n \<longrightarrow> cs ! length acc = farthest) \<and>
           (\<forall>c \<in> set cs. c \<in> set acc \<or> c = farthest \<or> c < length xyz)"
  using assms
proof (induction n arbitrary: distance farthest acc)
  case 0
  then show ?case by simp
next
  case (Suc n)
  let ?dist = "map (\<lambda>row. sum_list (map (\<lambda>x. x\<^sup>2) (map2 (-) row (xyz ! farthest)))) xyz"
  let ?distance = "map2 (\<lambda>d old. if d < old then d else old) ?dist distance"
  have len: "length ?distance = length xyz"
    using Suc.prems by simp
  with Suc.prems have "?distance \<noteq> []" by (metis length_0_conv)
  from np_argmax_bound [OF this] obtain k where
    k: "np_argmax ?distance = Inr k" "k < length xyz"
    using len by auto
  from Suc.IH [OF Suc.prems(1) len, of k "acc @ [farthest]"] obtain cs where
    cs: "fps_loop n xyz ?distance k (acc @ [farthest]) = Inr cs"
      "length cs = length (acc @ [farthest]) + n"
      "take (length (acc @ [farthest])) cs = acc @ [farthest]"
      "\<forall>c \<in> set cs. c \<in> set (acc @ [farthest]) \<or> c = k \<or> c < length xyz"
    by blast
  have run: "fps_loop (Suc n) xyz distance farthest acc = Inr cs"
    using k(1) cs(1) by (simp add: Let_def)
  have l: "length cs = length acc + Suc n" using cs(2) by simp
  have "take (length acc) (take (Suc (length acc)) cs) = take (length acc) (acc @ [farthest])"
    using cs(3) by simp
  then have pre: "take (length acc) cs = acc" by (simp add: min_def)
  have "take (Suc (length acc)) cs ! length acc = (acc @ [farthest]) ! length acc"
    using cs(3) by simp
  then have at: "cs ! length acc = farthest" by simp
  have mem: "\<forall>c \<in> set cs. c \<in> set acc \<or> c = farthest \<or> c < length xyz"
    using cs(4) k(2) by auto
  from run l pre at mem show ?case by blast
qed

text \<open>
  Claim C2. For every array of \<open>N \<ge> 1\<close> points (of any width, so also \<open>D \<ge> 3\<close>), every
  \<open>npoint \<ge> 1\<close> and every draw of the start index, \<^const>\<open>farthest_point_sample\<close> returns
  exactly \<open>npoint\<close> rows, all of them rows of the input, and the point at the start index,
  the first one selected, is the first of them.
\<close>

theorem farthest_point_sample_npoint_rows:
  assumes "1 \<le> length point" and "1 \<le> npoint"
  shows "\<exists>out. farthest_point_sample r point npoint = Inr out \<and> length out = npoint \<and>
           out ! 0 = point ! (r mod length point) \<and>
           point ! (r mod length point) \<in> set out \<and>
           set out \<subseteq> set point"
proof -
  let ?N = "length point"
  let ?xyz = "map (take 3) point"
  from assms(1) have ne: "?xyz \<noteq> []" and N: "0 < ?N" by auto
  have start: "r mod ?N < ?N" using N by simp
  from fps_loop_result [OF ne, of "replicate ?N (10 ^ 10)" npoint "r mod ?N" "[]"]
  obtain cs where cs: "fps_loop npoint ?xyz (replicate ?N (10 ^ 10)) (r mod ?N) [] = Inr cs"
      "length cs = npoint" "0 < npoint \<longrightarrow> cs ! 0 = r mod ?N"
      "\<forall>c \<in> set cs. c = r mod ?N \<or> c < ?N"
    by auto
  let ?out = "map (\<lambda>c. point ! c) cs"
  have res: "farthest_point_sample r point npoint = Inr ?out"
    using cs(1) N by (simp add: farthest_point_sample_def Let_def)
  have len: "length ?out = npoint" using cs(2) by simp
  have first: "?out ! 0 = point ! (r mod ?N)"
    using cs(2,3) assms(2) by simp
  have "?out ! 0 \<in> set ?out"
    using len assms(2) by (intro nth_mem) simp
  with first have mem: "point ! (r mod ?N) \<in> set ?out" by simp
  have sub: "set ?out \<subseteq> set point"
    using cs(4) start by auto
  from res len first mem sub show ?thesis by blast
qed

theorem farthest_point_sample_npoint_rows_witness:
  "farthest_point_sample 4 [[0, 0, 0], [1, 0, 0], [5, 0, 0]] 2 = Inr [[1, 0, 0], [5, 0, 0]]"
proof -
  have e: "farthest_point_sample 4 [[0, 0, 0], [1, 0, 0], [5, 0, 0]] 2 = Inr [[1, 0, 0], [5, 0, 0]]"
    by (simp add: farthest_point_sample_def Let_def numeral_2_eq_2)
  have "1 \<le> length [[0, 0, 0], [1, 0, 0], [5, 0, 0 :: real]]" "(1::nat) \<le> 2" by simp_all
  from farthest_point_sample_npoint_rows [OF this, of 4] e show ?thesis by simp
qed

subsection \<open>The augmentation of the dataset adapters\<close>




subsection \<open>Collation\<close>

text \<open>
  On a batch of tensors that all have one shape with a first dimension of at least 5,
  \<^const>\<open>customized_collate_fn\<close> stacks them along a new first dimension.
\<close>

lemma keep_not_none_all:
  "list_all (\<lambda>t. \<exists>n rest. shape t = n # rest \<and> 5 \<le> n) batch \<Longrightarrow> keep_not_none batch = Inr batch"
proof (induction batch)
  case Nil
  then show ?case by simp
next
  case (Cons t batch)
  then obtain n rest where s: "shape t = n # rest" "5 \<le> n" by auto
  then have "tensor_getitem t 4 \<noteq> Inl IndexError \<and> (\<exists>f. tensor_getitem t 4 = Inr f)"
    by (cases t) simp
  with Cons show ?case by auto
qed

lemma customized_collate_fn_stacks:
  assumes "batch \<noteq> []" and "list_all (\<lambda>t. shape t = n # rest) batch" and "5 \<le> n"
  shows "customized_collate_fn batch =
           Inr (Tensor (length batch # n # rest) (concat (map elements batch)))"
proof -
  have "list_all (\<lambda>t. \<exists>n rest. shape t = n # rest \<and> 5 \<le> n) batch"
    using assms(2,3) by (auto simp: list_all_iff)
  then have k: "keep_not_none batch = Inr batch" by (rule keep_not_none_all)
  from assms(1) obtain t ts where b: "batch = t # ts" by (cases batch) auto
  with assms(2) have "shape t = n # rest" "list_all (\<lambda>x. shape x = shape t) ts"
    by (auto simp: list_all_iff)
  with k b show ?thesis by (simp add: customized_collate_fn_def)
qed

text \<open>
  Claim C3 says so for every batch of same-shaped tensors. The code does not do it: the
  filter \<^verbatim>\<open>example[4] is not None\<close>, written for samples that are tuples of five fields,
  indexes each tensor at 4. Two image-like tensors of shape \<open>3 \<times> 1 \<times> 1\<close>, which
  \<^verbatim>\<open>torch.stack\<close> stacks to shape \<open>2 \<times> 3 \<times> 1 \<times> 1\<close>, make the function raise
  \<^verbatim>\<open>IndexError\<close>.
\<close>

theorem customized_collate_fn_small_tensors:
  "customized_collate_fn [Tensor [3, 1, 1] [1, 2, 3], Tensor [3, 1, 1] [4, 5, 6]]
     = Inl IndexError \<and>
   torch_stack [Tensor [3, 1, 1] [1, 2, 3], Tensor [3, 1, 1] [4, 5, 6]]
     = Inr (Tensor [2, 3, 1, 1] [1, 2, 3, 4, 5, 6])"
  by (simp add: customized_collate_fn_def)

subsection \<open>ModelNet: retrieving a sample\<close>

lemma py_index_valid:
  "0 \<le> i \<Longrightarrow> i < int (length xs) \<Longrightarrow> py_index xs i = Inr (nat i)"
  by (simp add: py_index_def)

lemma ModelNet_load_entry:
  assumes "ModelNet_load fl r self index = Inr (loaded, label, entry)"
  shows "(entry = None \<and> \<not> process_data self) \<or>
         (\<exists>k. entry = Some k \<and> process_data self \<and>
              py_index (list_of_points self) index = Inr k \<and>
              loaded = list_of_points self ! k)"
  using assms
  by (auto simp: ModelNet_load_def Let_def split: if_splits sum.splits)

lemma ModelNet_resample_cases:
  assumes "ModelNet_resample fl r self point_set entry = Inr (point_set', entry')"
  shows "(npoints self < length point_set \<and> entry' = None) \<or>
         (\<not> npoints self < length point_set \<and> point_set' = point_set \<and> entry' = entry)"
  using assms by (auto simp: ModelNet_resample_def split: if_splits sum.splits)

lemma ModelNet_normalize_in_place_cases:
  assumes "ModelNet_normalize_in_place fl self point_set entry = Inr (self1, written)"
  shows "\<exists>normalized. pc_normalize_fl fl (map (take 3) point_set) = Inr normalized \<and>
           written = map2 (\<lambda>row n. n @ drop 3 row) point_set normalized \<and>
           self1 = (case entry of
                      None \<Rightarrow> self
                    | Some k \<Rightarrow> self\<lparr>list_of_points := (list_of_points self)[k := written]\<rparr>)"
  using assms
  by (auto simp: ModelNet_normalize_in_place_def Let_def split: sum.splits option.splits)

lemma ModelNet_columns_frame:
  assumes "ModelNet_columns fl self point_set = Inr (self2, point_set2)"
  shows "self2 = self\<lparr>gravity_dim := (if use_height self then Some 1 else gravity_dim self)\<rparr>"
  using assms
  by (auto simp: ModelNet_columns_def Let_def split: if_splits sum.splits)

lemma ModelNet_get_item_steps:
  assumes "ModelNet_get_item fl r1 r2 self index = Inr (self2, point_set2, cls)"
  shows "\<exists>loaded label entry point_set entry' self1 written.
           ModelNet_load fl r1 self index = Inr (loaded, label, entry) \<and>
           ModelNet_resample fl r2 self loaded entry = Inr (point_set, entry') \<and>
           ModelNet_normalize_in_place fl self point_set entry' = Inr (self1, written) \<and>
           ModelNet_columns fl self1 written = Inr (self2, point_set2)"
  using assms
  by (auto simp: ModelNet_get_item_def split: sum.splits prod.splits list.splits)

lemma ModelNet_getitem_steps:
  assumes "ModelNet_getitem fl r1 r2 shuffle self index = Inr (self', s)"
  shows "\<exists>points label. ModelNet_get_item fl r1 r2 self index = Inr (self', points, label)"
  using assms
  by (auto simp: ModelNet_getitem_def Let_def split: sum.splits prod.splits)

text \<open>
  Claim C7, as stated: retrieving a sample leaves the stored state unchanged, the cached
  array \<^verbatim>\<open>self.list_of_points[index]\<close> in particular. It does not. With a cache of one cloud
  of the two points \<open>(0, 0, 0)\<close> and \<open>(2, 0, 0)\<close> and \<open>npoints = 2\<close>, retrieving index 0
  leaves the points \<open>(-1, 0, 0)\<close> and \<open>(1, 0, 0)\<close> in the cache. (Every number of this run is
  a small integer or a half of one, so floating point computes the same.)
\<close>

theorem ModelNet_getitem_changes_cache:
  "ModelNet_getitem over_reals 0 0 id
     \<lparr>npoints = 2, use_normals = False, use_height = False, process_data = True,
      uniform = True, subset = ''test'', list_of_points = [[[0, 0, 0], [2, 0, 0 :: real]]],
      list_of_labels = [[0]], shape_names = [''airplane''], gravity_dim = None,
      raw_points = [], raw_classes = []\<rparr> 0
   = Inr (\<lparr>npoints = 2, use_normals = False, use_height = False, process_data = True,
      uniform = True, subset = ''test'', list_of_points = [[[- 1, 0, 0], [1, 0, 0 :: real]]],
      list_of_labels = [[0]], shape_names = [''airplane''], gravity_dim = None,
      raw_points = [], raw_classes = []\<rparr>,
      \<lparr>sample_pc = [[- 1, 0, 0], [1, 0, 0]], sample_label = 0,
        sample_class_name = ''airplane''\<rparr>) \<and>
   list_of_points
     \<lparr>npoints = 2, use_normals = False, use_height = False, process_data = True,
      uniform = True, subset = ''test'', list_of_points = [[[- 1, 0, 0], [1, 0, 0 :: real]]],
      list_of_labels = [[0]], shape_names = [''airplane''], gravity_dim = None,
      raw_points = [], raw_classes = []\<rparr>
   \<noteq> list_of_points
     \<lparr>npoints = 2, use_normals = False, use_height = False, process_data = True,
      uniform = True, subset = ''test'', list_of_points = [[[0, 0, 0], [2, 0, 0 :: real]]],
      list_of_labels = [[0]], shape_names = [''airplane''], gravity_dim = None,
      raw_points = [], raw_classes = []\<rparr>"
  by (simp add: ModelNet_getitem_def ModelNet_get_item_def ModelNet_load_def
      ModelNet_resample_def ModelNet_normalize_in_place_def ModelNet_columns_def py_index_def
      over_reals_def pc_normalize_def np_mean_axis0_def ncols_def row_norms_def upt_rec Let_def)

text \<open>
  Claim C7, amended. A retrieval at a valid index that returns a sample changes nothing of
  the object but the cache entry at that index and, with \<^verbatim>\<open>use_height\<close>, the attribute
  \<^verbatim>\<open>gravity_dim\<close>, which it sets to 1. The labels and every other cache entry stay as they
  are. The entry at the index is unchanged when it has more than \<^verbatim>\<open>npoints\<close> rows (the
  sample is drawn into a new array) or when the cache is not used; otherwise its first three
  columns are overwritten with what \<^verbatim>\<open>pc_normalize\<close> returns for them and its other columns
  are kept. This holds for every choice of the numeric routines, so for the floating-point
  ones, whatever they round to and also when they return \<^verbatim>\<open>nan\<close>.
\<close>

theorem ModelNet_getitem_writes_cache:
  assumes ok: "ModelNet_getitem fl r1 r2 shuffle self index = Inr (self', s)"
    and idx: "0 \<le> index" "index < int (length (list_of_points self))"
  shows "self' = self\<lparr>list_of_points := list_of_points self', gravity_dim := gravity_dim self'\<rparr> \<and>
         gravity_dim self' = (if use_height self then Some 1 else gravity_dim self) \<and>
         length (list_of_points self') = length (list_of_points self) \<and>
         (\<forall>j. j \<noteq> nat index \<longrightarrow> list_of_points self' ! j = list_of_points self ! j) \<and>
         (\<not> process_data self \<or> npoints self < length (list_of_points self ! nat index)
            \<longrightarrow> list_of_points self' = list_of_points self) \<and>
         (process_data self \<and> length (list_of_points self ! nat index) \<le> npoints self
            \<longrightarrow> (\<exists>normalized.
                   pc_normalize_fl fl (map (take 3) (list_of_points self ! nat index)) = Inr normalized \<and>
                   list_of_points self' ! nat index =
                     map2 (\<lambda>row n. n @ drop 3 row) (list_of_points self ! nat index) normalized))"
proof -
  let ?cache = "list_of_points self"
  let ?k = "nat index"
  from ModelNet_getitem_steps [OF ok] obtain points label where
    gi: "ModelNet_get_item fl r1 r2 self index = Inr (self', points, label)" by blast
  from ModelNet_get_item_steps [OF gi] obtain loaded lab entry point_set entry' self1 written
    where load: "ModelNet_load fl r1 self index = Inr (loaded, lab, entry)"
      and res: "ModelNet_resample fl r2 self loaded entry = Inr (point_set, entry')"
      and norm: "ModelNet_normalize_in_place fl self point_set entry' = Inr (self1, written)"
      and cols: "ModelNet_columns fl self1 written = Inr (self', points)"
    by blast
  from ModelNet_normalize_in_place_cases [OF norm] obtain normalized where
    n: "pc_normalize_fl fl (map (take 3) point_set) = Inr normalized"
       "written = map2 (\<lambda>row n. n @ drop 3 row) point_set normalized"
       "self1 = (case entry' of None \<Rightarrow> self
                 | Some k \<Rightarrow> self\<lparr>list_of_points := ?cache[k := written]\<rparr>)"
    by blast
  from ModelNet_columns_frame [OF cols] have
    c: "self' = self1\<lparr>gravity_dim := (if use_height self1 then Some 1 else gravity_dim self1)\<rparr>" .
  have kvalid: "py_index ?cache index = Inr ?k" using idx by (rule py_index_valid)
  have klen: "?k < length ?cache" using idx by simp
  show ?thesis
  proof (cases entry')
    case None
    with n(3) c have s: "self' = self\<lparr>gravity_dim := (if use_height self then Some 1 else gravity_dim self)\<rparr>"
      by simp
    have "\<not> process_data self \<or> npoints self < length (?cache ! ?k)"
      using ModelNet_load_entry [OF load] ModelNet_resample_cases [OF res] None kvalid
      by auto
    with s show ?thesis by auto
  next
    case (Some k)
    with ModelNet_resample_cases [OF res] have r: "\<not> npoints self < length loaded"
      "point_set = loaded" "entry = Some k" by auto
    with ModelNet_load_entry [OF load] kvalid have l: "process_data self" "k = ?k"
      "loaded = ?cache ! ?k" by auto
    from n(3) c Some have s: "self' = self\<lparr>list_of_points := ?cache[k := written],
        gravity_dim := (if use_height self then Some 1 else gravity_dim self)\<rparr>"
      by simp
    have w: "list_of_points self' ! ?k = written" using s l(2) klen by simp
    from s l r n w show ?thesis by auto
  qed
qed

theorem ModelNet_getitem_writes_cache_witness:
  "length (list_of_points
     \<lparr>npoints = 2, use_normals = False, use_height = False, process_data = True,
      uniform = True, subset = ''test'', list_of_points = [[[- 1, 0, 0], [1, 0, 0 :: real]]],
      list_of_labels = [[0]], shape_names = [''airplane''], gravity_dim = None,
      raw_points = [], raw_classes = []\<rparr>) =
   length (list_of_points
     \<lparr>npoints = 2, use_normals = False, use_height = False, process_data = True,
      uniform = True, subset = ''test'', list_of_points = [[[0, 0, 0], [2, 0, 0 :: real]]],
      list_of_labels = [[0]], shape_names = [''airplane''], gravity_dim = None,
      raw_points = [], raw_classes = []\<rparr>) \<and>
   (\<exists>normalized. pc_normalize (map (take 3) [[0, 0, 0], [2, 0, 0]]) = Inr normalized \<and>
      [[- 1, 0, 0], [1, 0, 0]] = map2 (\<lambda>row n. n @ drop 3 row) [[0, 0, 0], [2, 0, 0]] normalized)"
proof -
  have run: "ModelNet_getitem over_reals 0 0 id
     \<lparr>npoints = 2, use_normals = False, use_height = False, process_data = True,
      uniform = True, subset = ''test'', list_of_points = [[[0, 0, 0], [2, 0, 0 :: real]]],
      list_of_labels = [[0]], shape_names = [''airplane''], gravity_dim = None,
      raw_points = [], raw_classes = []\<rparr> 0
   = Inr (\<lparr>npoints = 2, use_normals = False, use_height = False, process_data = True,
      uniform = True, subset = ''test'', list_of_points = [[[- 1, 0, 0], [1, 0, 0 :: real]]],
      list_of_labels = [[0]], shape_names = [''airplane''], gravity_dim = None,
      raw_points = [], raw_classes = []\<rparr>,
      \<lparr>sample_pc = [[- 1, 0, 0], [1, 0, 0]], sample_label = 0,
        sample_class_name = ''airplane''\<rparr>)"
    by (simp add: ModelNet_getitem_def ModelNet_get_item_def ModelNet_load_def
      ModelNet_resample_def ModelNet_normalize_in_place_def ModelNet_columns_def py_index_def
      over_reals_def pc_normalize_def np_mean_axis0_def ncols_def row_norms_def upt_rec Let_def)
  have "(0::int) \<le> 0" and "(0::int) < int (length (list_of_points
     \<lparr>npoints = 2, use_normals = False, use_height = False, process_data = True,
      uniform = True, subset = ''test'', list_of_points = [[[0, 0, 0], [2, 0, 0 :: real]]],
      list_of_labels = [[0]], shape_names = [''airplane''], gravity_dim = None,
      raw_points = [], raw_classes = []\<rparr>))"
    by simp_all
  from ModelNet_getitem_writes_cache [OF run this] show ?thesis
    by (simp add: over_reals_def)
qed

end
